theory Spec2Isabelle
  imports Main
begin

section \<open>Data model (app.py, lines 26-68)\<close>

text \<open>
  The four SQLAlchemy models and the many-to-many table of \<^verbatim>\<open>app.py\<close>, one record per
  row. Primary keys are the non-negative integers the routes take (\<^verbatim>\<open><int:board_id>\<close>);
  \<^verbatim>\<open>position\<close> is a Python integer. The fields \<^verbatim>\<open>id\<close> and \<^verbatim>\<open>name\<close> occur in several
  models, so they carry the model's initial. The \<^verbatim>\<open>date_created\<close> columns are written once
  by the column default and read by no handler; they are left out.
\<close>

record user =
  uid :: nat
  username :: string
  password :: string

record board =
  bid :: nat
  bname :: string
  user_id :: nat

record list_row =
  lid :: nat
  lname :: string
  board_id :: nat

record card =
  cid :: nat
  title :: string
  description :: string
  position :: int
  list_id :: nat

text \<open>
  The database: one list of rows per table, in insertion order. A row of
  \<^verbatim>\<open>board_collaborators\<close> is the pair (board id, user id).
\<close>

record db =
  tbl_users :: "user list"
  tbl_board :: "board list"
  tbl_list :: "list_row list"
  tbl_card :: "card list"
  board_collaborators :: "(nat \<times> nat) list"

definition empty_db :: db where
  "empty_db = \<lparr>tbl_users = [], tbl_board = [], tbl_list = [], tbl_card = [],
     board_collaborators = []\<rparr>"

section \<open>Queries and writes of the ORM\<close>

text \<open>\<^verbatim>\<open>Model.query.get(i)\<close>: the row with primary key \<open>i\<close>, or None.\<close>

definition get_user :: "db \<Rightarrow> nat \<Rightarrow> user option" where
  "get_user st i = find (\<lambda>u. uid u = i) (tbl_users st)"

definition get_board :: "db \<Rightarrow> nat \<Rightarrow> board option" where
  "get_board st i = find (\<lambda>b. bid b = i) (tbl_board st)"

definition get_list :: "db \<Rightarrow> nat \<Rightarrow> list_row option" where
  "get_list st i = find (\<lambda>l. lid l = i) (tbl_list st)"

definition get_card :: "db \<Rightarrow> nat \<Rightarrow> card option" where
  "get_card st i = find (\<lambda>c. cid c = i) (tbl_card st)"

text \<open>\<^verbatim>\<open>User.query.filter_by(username=uname).first()\<close>\<close>

definition user_by_name :: "db \<Rightarrow> string \<Rightarrow> user option" where
  "user_by_name st uname = find (\<lambda>u. username u = uname) (tbl_users st)"

text \<open>
  \<^verbatim>\<open>board.collaborators\<close>: the users joined through \<^verbatim>\<open>board_collaborators\<close>. Membership
  (\<^verbatim>\<open>user in board.collaborators\<close>) compares ORM objects, which are identical exactly when
  their primary keys are, so it is a comparison of user ids.
\<close>

definition collaborators :: "db \<Rightarrow> board \<Rightarrow> user list" where
  "collaborators st b = filter (\<lambda>u. (bid b, uid u) \<in> set (board_collaborators st)) (tbl_users st)"

definition is_collaborator :: "db \<Rightarrow> user \<Rightarrow> board \<Rightarrow> bool" where
  "is_collaborator st u b = (uid u \<in> set (map uid (collaborators st b)))"

text \<open>
  The primary key of an inserted row is chosen by the store. The model takes the successor
  of the largest key of the table; all that matters is that the key is not in the table.
\<close>

definition next_id :: "nat list \<Rightarrow> nat" where
  "next_id ids = Suc (fold max ids 0)"

text \<open>
  \<^verbatim>\<open>db.session.delete(board)\<close>: the relationship \<^verbatim>\<open>lists\<close> has \<^verbatim>\<open>cascade="all, delete"\<close>, as
  has \<^verbatim>\<open>List.cards\<close>, and the rows of the secondary table of \<^verbatim>\<open>collaborators\<close> go with the
  board.
\<close>

definition delete_board_rows :: "db \<Rightarrow> nat \<Rightarrow> db" where
  "delete_board_rows st i =
     (let gone = map lid (filter (\<lambda>l. board_id l = i) (tbl_list st))
      in st\<lparr>tbl_board := filter (\<lambda>b. bid b \<noteq> i) (tbl_board st),
            tbl_list := filter (\<lambda>l. board_id l \<noteq> i) (tbl_list st),
            tbl_card := filter (\<lambda>c. list_id c \<notin> set gone) (tbl_card st),
            board_collaborators := filter (\<lambda>r. fst r \<noteq> i) (board_collaborators st)\<rparr>)"

text \<open>\<^verbatim>\<open>db.session.delete(list_item)\<close>, cascading to the list's cards.\<close>

definition delete_list_rows :: "db \<Rightarrow> nat \<Rightarrow> db" where
  "delete_list_rows st i =
     st\<lparr>tbl_list := filter (\<lambda>l. lid l \<noteq> i) (tbl_list st),
        tbl_card := filter (\<lambda>c. list_id c \<noteq> i) (tbl_card st)\<rparr>"

definition delete_card_row :: "db \<Rightarrow> nat \<Rightarrow> db" where
  "delete_card_row st i = st\<lparr>tbl_card := filter (\<lambda>c. cid c \<noteq> i) (tbl_card st)\<rparr>"

text \<open>Attribute writes followed by \<^verbatim>\<open>commit()\<close>: an UPDATE of the row with that key.\<close>

definition set_board_name :: "db \<Rightarrow> nat \<Rightarrow> string \<Rightarrow> db" where
  "set_board_name st i n =
     st\<lparr>tbl_board := map (\<lambda>b. if bid b = i then b\<lparr>bname := n\<rparr> else b) (tbl_board st)\<rparr>"

definition set_list_name :: "db \<Rightarrow> nat \<Rightarrow> string \<Rightarrow> db" where
  "set_list_name st i n =
     st\<lparr>tbl_list := map (\<lambda>l. if lid l = i then l\<lparr>lname := n\<rparr> else l) (tbl_list st)\<rparr>"

definition set_card_text :: "db \<Rightarrow> nat \<Rightarrow> string \<Rightarrow> string \<Rightarrow> db" where
  "set_card_text st i t d =
     st\<lparr>tbl_card := map (\<lambda>c. if cid c = i then c\<lparr>title := t, description := d\<rparr> else c)
        (tbl_card st)\<rparr>"

definition set_card_place :: "db \<Rightarrow> nat \<Rightarrow> nat \<Rightarrow> int \<Rightarrow> db" where
  "set_card_place st i l p =
     st\<lparr>tbl_card := map (\<lambda>c. if cid c = i then c\<lparr>list_id := l, position := p\<rparr> else c)
        (tbl_card st)\<rparr>"

section \<open>Requests and responses\<close>

datatype http_method = GET | POST

text \<open>
  The messages passed to \<^verbatim>\<open>flash\<close>, one constructor per literal of \<^verbatim>\<open>app.py\<close> (several
  literals start with an emoji, which the constructor name leaves out):
  \<^item> \<open>Username_exists\<close>: 'Username already exists!'
  \<^item> \<open>Registration_successful\<close>: 'Registration successful! Please login.'
  \<^item> \<open>Invalid_credentials\<close>: 'Invalid credentials!'
  \<^item> \<open>Board_created\<close>, \<open>Board_renamed\<close>, \<open>Board_deleted\<close>: 'Board created successfully!', ...
  \<^item> \<open>Unauthorized_action\<close>: 'Unauthorized action.'
  \<^item> \<open>Only_owners\<close>: 'Only board owners can add collaborators.'
  \<^item> \<open>User_not_found\<close>: 'User not found!'
  \<^item> \<open>Already_member\<close>: 'User is already a collaborator or owner.'
  \<^item> \<open>Collaborator_added u\<close>: '<u> added as collaborator!'
  \<^item> \<open>List_added\<close>, \<open>List_updated\<close>, \<open>List_deleted\<close>, \<open>Card_added\<close>, \<open>Card_updated\<close>,
    \<open>Card_deleted\<close>: '... successfully!'
  \<^item> \<open>Please_log_in\<close>: the message of \<^verbatim>\<open>login_required\<close> for a request without a user.
\<close>

datatype flash_msg =
    Username_exists | Registration_successful | Invalid_credentials
  | Board_created | Board_renamed | Board_deleted | Unauthorized_action
  | Only_owners | User_not_found | Already_member | Collaborator_added string
  | List_added | List_updated | List_deleted
  | Card_added | Card_updated | Card_deleted
  | Please_log_in

text \<open>The targets of \<^verbatim>\<open>redirect\<close> and the templates of \<^verbatim>\<open>render_template\<close>.\<close>

datatype endpoint =
    To_login | To_register | To_dashboard | To_view_board nat | To_referrer "string option"

datatype template = Register_html | Login_html

text \<open>
  A response: a redirect, a rendered page, \<^verbatim>\<open>jsonify(...)\<close> with its status code, or an
  abort with a status code (404 from \<^verbatim>\<open>get_or_404\<close>, 400 for a missing form field or an
  unreadable body, 500 for an exception that no handler catches).
\<close>

datatype response =
    Redirect endpoint
  | Render template
  | Json nat "(string \<times> string) list"
  | Abort nat

text \<open>
  What \<^verbatim>\<open>socketio.emit\<close> sends: \<^verbatim>\<open>refresh_dashboard\<close> to every client, \<^verbatim>\<open>refresh_board\<close>
  to the room of a board id, \<^verbatim>\<open>card_moved\<close> (card id, new list id, board id) to the room of
  that board id.
\<close>

datatype event = Refresh_dashboard | Refresh_board nat | Card_moved nat nat nat

text \<open>
  The result of a handler: the response, the messages flashed, the events emitted, the
  user id in the session afterwards, and the database afterwards.
\<close>

record outcome =
  response :: response
  flashes :: "flash_msg list"
  emitted :: "event list"
  session :: "nat option"
  store :: db

definition reply :: "response \<Rightarrow> flash_msg list \<Rightarrow> event list \<Rightarrow> nat option \<Rightarrow> db \<Rightarrow> outcome" where
  "reply r fs es sess st = \<lparr>response = r, flashes = fs, emitted = es, session = sess, store = st\<rparr>"

text \<open>An abort or an uncaught exception: nothing is flashed, emitted or committed.\<close>

definition abort :: "nat \<Rightarrow> nat option \<Rightarrow> db \<Rightarrow> outcome" where
  "abort n sess st = reply (Abort n) [] [] sess st"

text \<open>
  \<^verbatim>\<open>current_user\<close>: \<^verbatim>\<open>load_user\<close> looks the session's user id up; a session without an id,
  or with the id of no user, is anonymous, and \<^verbatim>\<open>login_required\<close> redirects it to the login
  view.
\<close>

definition current_user :: "db \<Rightarrow> nat option \<Rightarrow> user option" where
  "current_user st sess = (case sess of None \<Rightarrow> None | Some i \<Rightarrow> get_user st i)"

definition unauthenticated :: "nat option \<Rightarrow> db \<Rightarrow> outcome" where
  "unauthenticated sess st = reply (Redirect To_login) [Please_log_in] [] sess st"

text \<open>
  \<^verbatim>\<open>str.strip()\<close> removes the characters for which \<^verbatim>\<open>str.isspace()\<close> holds. A \<open>char\<close>
  is a code point below 256; there these are tab, line feed, vertical tab, form feed,
  carriage return (9 to 13), the separators 0x1C to 0x1F, the space (32), NEL (0x85) and the
  no-break space (0xA0).
\<close>

definition is_space :: "char \<Rightarrow> bool" where
  "is_space c =
     (let n = (of_char c :: nat)
      in (9 \<le> n \<and> n \<le> 13) \<or> (28 \<le> n \<and> n \<le> 32) \<or> n = 133 \<or> n = 160)"

definition strip :: "string \<Rightarrow> string" where
  "strip s = rev (dropWhile is_space (rev (dropWhile is_space s)))"

text \<open>
  An \<^verbatim>\<open>Integer\<close> column holds a signed 64-bit value. Binding a Python integer outside that
  range to a statement raises \<^verbatim>\<open>OverflowError\<close>: the commit fails, nothing is written and
  the request ends with status 500.
\<close>

definition in_integer_range :: "int \<Rightarrow> bool" where
  "in_integer_range v = (- 9223372036854775808 \<le> v \<and> v < 9223372036854775808)"

text \<open>
  The body of \<^verbatim>\<open>POST /move_card\<close> as \<^verbatim>\<open>request.get_json()\<close> sees it: a request whose
  content type is not JSON (the call aborts with 415), a body that does not parse as JSON
  (400), JSON that is not an object (\<^verbatim>\<open>data.get\<close> raises), or an object whose
  \<^verbatim>\<open>new_position\<close>, when present, is an integer.
\<close>

datatype json_body = Not_json | Bad_body | Not_object | Object "int option"

section \<open>Handlers (app.py, lines 95-320)\<close>

text \<open>
  Every handler takes the request's data, the database and the session's user id. A form
  field is \<open>None\<close> when the request does not carry it; \<^verbatim>\<open>request.form['k']\<close> then aborts
  with 400. \<^verbatim>\<open>generate_password_hash\<close> and \<^verbatim>\<open>check_password_hash\<close> belong to werkzeug and
  are parameters of \<open>register\<close> and \<open>login\<close>.
\<close>

definition register ::
  "(string \<Rightarrow> string) \<Rightarrow> http_method \<Rightarrow> string option \<Rightarrow> string option \<Rightarrow> db \<Rightarrow> nat option \<Rightarrow> outcome"
where
  "register generate_password_hash m form_username form_password st sess =
     (if m = POST then
        (case form_username of None \<Rightarrow> abort 400 sess st | Some uname \<Rightarrow>
         (case form_password of None \<Rightarrow> abort 400 sess st | Some pwd \<Rightarrow>
           if user_by_name st uname \<noteq> None
           then reply (Redirect To_register) [Username_exists] [] sess st
           else
             let hashed_pwd = generate_password_hash pwd;
                 new_user = \<lparr>uid = next_id (map uid (tbl_users st)), username = uname,
                             password = hashed_pwd\<rparr>
             in reply (Redirect To_login) [Registration_successful] [] sess
                  (st\<lparr>tbl_users := tbl_users st @ [new_user]\<rparr>)))
      else reply (Render Register_html) [] [] sess st)"

definition login ::
  "(string \<Rightarrow> string \<Rightarrow> bool) \<Rightarrow> http_method \<Rightarrow> string option \<Rightarrow> string option \<Rightarrow> db \<Rightarrow> nat option \<Rightarrow> outcome"
where
  "login check_password_hash m form_username form_password st sess =
     (if m = POST then
        (case form_username of None \<Rightarrow> abort 400 sess st | Some uname \<Rightarrow>
         (case form_password of None \<Rightarrow> abort 400 sess st | Some pwd \<Rightarrow>
           (case user_by_name st uname of
              None \<Rightarrow> reply (Render Login_html) [Invalid_credentials] [] sess st
            | Some u \<Rightarrow>
                if check_password_hash (password u) pwd
                then reply (Redirect To_dashboard) [] [] (Some (uid u)) st
                else reply (Render Login_html) [Invalid_credentials] [] sess st)))
      else reply (Render Login_html) [] [] sess st)"

definition create_board :: "string option \<Rightarrow> db \<Rightarrow> nat option \<Rightarrow> outcome" where
  "create_board form_board_name st sess =
     (case current_user st sess of None \<Rightarrow> unauthenticated sess st | Some cu \<Rightarrow>
      (case form_board_name of None \<Rightarrow> abort 400 sess st | Some name \<Rightarrow>
        let new_board = \<lparr>bid = next_id (map bid (tbl_board st)), bname = name, user_id = uid cu\<rparr>
        in reply (Redirect To_dashboard) [Board_created] [Refresh_dashboard] sess
             (st\<lparr>tbl_board := tbl_board st @ [new_board]\<rparr>)))"

text \<open>
  \<^verbatim>\<open>board.owner\<close> is the user with id \<^verbatim>\<open>board.user_id\<close>; when there is none it is
  \<^verbatim>\<open>None\<close> and \<^verbatim>\<open>board.owner.id\<close> raises.
\<close>

definition update_board :: "nat \<Rightarrow> string option \<Rightarrow> db \<Rightarrow> nat option \<Rightarrow> outcome" where
  "update_board board_id' form_board_name st sess =
     (case current_user st sess of None \<Rightarrow> unauthenticated sess st | Some cu \<Rightarrow>
      (case get_board st board_id' of None \<Rightarrow> abort 404 sess st | Some b \<Rightarrow>
      (case get_user st (user_id b) of None \<Rightarrow> abort 500 sess st | Some owner \<Rightarrow>
        if uid owner \<noteq> uid cu
        then reply (Redirect To_dashboard) [Unauthorized_action] [] sess st
        else
          (case form_board_name of None \<Rightarrow> abort 400 sess st | Some name \<Rightarrow>
             reply (Redirect To_dashboard) [Board_renamed] [Refresh_dashboard] sess
               (set_board_name st (bid b) name)))))"

definition delete_board :: "nat \<Rightarrow> db \<Rightarrow> nat option \<Rightarrow> outcome" where
  "delete_board board_id' st sess =
     (case current_user st sess of None \<Rightarrow> unauthenticated sess st | Some cu \<Rightarrow>
      (case get_board st board_id' of None \<Rightarrow> abort 404 sess st | Some b \<Rightarrow>
      (case get_user st (user_id b) of None \<Rightarrow> abort 500 sess st | Some owner \<Rightarrow>
        if uid owner \<noteq> uid cu
        then reply (Redirect To_dashboard) [Unauthorized_action] [] sess st
        else reply (Redirect To_dashboard) [Board_deleted] [Refresh_dashboard] sess
               (delete_board_rows st (bid b)))))"

definition add_collaborator :: "nat \<Rightarrow> string option \<Rightarrow> db \<Rightarrow> nat option \<Rightarrow> outcome" where
  "add_collaborator board_id' form_username st sess =
     (case current_user st sess of None \<Rightarrow> unauthenticated sess st | Some cu \<Rightarrow>
      (case get_board st board_id' of None \<Rightarrow> abort 404 sess st | Some b \<Rightarrow>
      (case get_user st (user_id b) of None \<Rightarrow> abort 500 sess st | Some owner \<Rightarrow>
        if uid owner \<noteq> uid cu
        then reply (Redirect (To_view_board board_id')) [Only_owners] [] sess st
        else
          (case form_username of None \<Rightarrow> abort 400 sess st | Some raw \<Rightarrow>
             let uname = strip raw in
             (case user_by_name st uname of
                None \<Rightarrow> reply (Redirect (To_view_board board_id')) [User_not_found] [] sess st
              | Some u \<Rightarrow>
                  if uid u = uid owner \<or> is_collaborator st u b
                  then reply (Redirect (To_view_board board_id')) [Already_member] [] sess st
                  else reply (Redirect (To_view_board board_id')) [Collaborator_added uname]
                         [Refresh_board board_id'] sess
                         (st\<lparr>board_collaborators :=
                               board_collaborators st @ [(bid b, uid u)]\<rparr>))))))"

text \<open>
  \<open>add_list\<close> looks neither the board nor the actor's relation to it up. The commit
  writes \<^verbatim>\<open>board_id\<close> to an \<^verbatim>\<open>Integer\<close> column and fails when the id taken from the URL
  is out of that column's range; the flash and the emit come after the commit.
\<close>

definition add_list :: "nat \<Rightarrow> string option \<Rightarrow> db \<Rightarrow> nat option \<Rightarrow> outcome" where
  "add_list board_id' form_list_name st sess =
     (case current_user st sess of None \<Rightarrow> unauthenticated sess st | Some cu \<Rightarrow>
      (case form_list_name of None \<Rightarrow> abort 400 sess st | Some name \<Rightarrow>
        let new_list = \<lparr>lid = next_id (map lid (tbl_list st)), lname = name,
                        board_id = board_id'\<rparr>
        in if \<not> in_integer_range (int board_id') then abort 500 sess st
           else reply (Redirect (To_view_board board_id')) [List_added]
                  [Refresh_board board_id'] sess
                  (st\<lparr>tbl_list := tbl_list st @ [new_list]\<rparr>)))"

definition update_list :: "nat \<Rightarrow> string option \<Rightarrow> db \<Rightarrow> nat option \<Rightarrow> outcome" where
  "update_list list_id' form_list_name st sess =
     (case current_user st sess of None \<Rightarrow> unauthenticated sess st | Some cu \<Rightarrow>
      (case get_list st list_id' of None \<Rightarrow> abort 404 sess st | Some list_item \<Rightarrow>
      (case form_list_name of None \<Rightarrow> abort 400 sess st | Some name \<Rightarrow>
        reply (Redirect (To_view_board (board_id list_item))) [List_updated]
          [Refresh_board (board_id list_item)] sess
          (set_list_name st (lid list_item) name))))"

definition delete_list :: "nat \<Rightarrow> db \<Rightarrow> nat option \<Rightarrow> outcome" where
  "delete_list list_id' st sess =
     (case current_user st sess of None \<Rightarrow> unauthenticated sess st | Some cu \<Rightarrow>
      (case get_list st list_id' of None \<Rightarrow> abort 404 sess st | Some list_item \<Rightarrow>
        reply (Redirect (To_view_board (board_id list_item))) [List_deleted]
          [Refresh_board (board_id list_item)] sess
          (delete_list_rows st (lid list_item))))"

text \<open>
  \<open>add_card\<close>: the card is committed first (the commit fails when \<^verbatim>\<open>list_id\<close> is out of
  the column's range); \<^verbatim>\<open>new_card.list.board_id\<close> raises when the list does not exist, and
  the \<^verbatim>\<open>except\<close> branch then takes \<^verbatim>\<open>list_id\<close> as the room. \<^verbatim>\<open>card_description\<close> is read
  with \<^verbatim>\<open>form.get\<close> and defaults to the empty string.
\<close>

definition add_card ::
  "nat \<Rightarrow> string option \<Rightarrow> string option \<Rightarrow> string option \<Rightarrow> db \<Rightarrow> nat option \<Rightarrow> outcome"
where
  "add_card list_id' form_card_title form_card_description referrer st sess =
     (case current_user st sess of None \<Rightarrow> unauthenticated sess st | Some cu \<Rightarrow>
      (case form_card_title of None \<Rightarrow> abort 400 sess st | Some ttl \<Rightarrow>
        let descr = (case form_card_description of None \<Rightarrow> [] | Some d \<Rightarrow> d);
            new_card = \<lparr>cid = next_id (map cid (tbl_card st)), title = ttl, description = descr,
                        position = 0, list_id = list_id'\<rparr>;
            room = (case get_list st list_id' of None \<Rightarrow> list_id' | Some l \<Rightarrow> board_id l)
        in if \<not> in_integer_range (int list_id') then abort 500 sess st
           else reply (Redirect (To_referrer referrer)) [Card_added] [Refresh_board room] sess
                  (st\<lparr>tbl_card := tbl_card st @ [new_card]\<rparr>)))"

text \<open>
  \<open>update_card\<close> commits and flashes before it reads \<^verbatim>\<open>card.list.board_id\<close> for the emit:
  when the card's list does not exist the request ends in an exception with the write
  already committed. \<open>delete_card\<close> reads \<^verbatim>\<open>card.list.board_id\<close> before it deletes.
\<close>

definition update_card ::
  "nat \<Rightarrow> string option \<Rightarrow> string option \<Rightarrow> string option \<Rightarrow> db \<Rightarrow> nat option \<Rightarrow> outcome"
where
  "update_card card_id form_card_title form_card_description referrer st sess =
     (case current_user st sess of None \<Rightarrow> unauthenticated sess st | Some cu \<Rightarrow>
      (case get_card st card_id of None \<Rightarrow> abort 404 sess st | Some c \<Rightarrow>
      (case form_card_title of None \<Rightarrow> abort 400 sess st | Some ttl \<Rightarrow>
        let descr = (case form_card_description of None \<Rightarrow> [] | Some d \<Rightarrow> d);
            st' = set_card_text st (cid c) ttl descr
        in (case get_list st' (list_id c) of
              None \<Rightarrow> reply (Abort 500) [Card_updated] [] sess st'
            | Some l \<Rightarrow>
                reply (Redirect (To_referrer referrer)) [Card_updated] [Refresh_board (board_id l)]
                  sess st'))))"

definition delete_card :: "nat \<Rightarrow> string option \<Rightarrow> db \<Rightarrow> nat option \<Rightarrow> outcome" where
  "delete_card card_id referrer st sess =
     (case current_user st sess of None \<Rightarrow> unauthenticated sess st | Some cu \<Rightarrow>
      (case get_card st card_id of None \<Rightarrow> abort 404 sess st | Some c \<Rightarrow>
      (case get_list st (list_id c) of None \<Rightarrow> abort 500 sess st | Some l \<Rightarrow>
        reply (Redirect (To_referrer referrer)) [Card_deleted] [Refresh_board (board_id l)] sess
          (delete_card_row st (cid c)))))"

text \<open>
  \<open>move_card\<close>: the body is read first, then the card and the destination list are
  looked up, then the actor is checked against the destination list's board
  (\<^verbatim>\<open>new_list.board\<close> and its \<^verbatim>\<open>owner\<close> are \<^verbatim>\<open>None\<close> when the row does not exist, and the
  attribute access raises). The commit writes \<^verbatim>\<open>new_position\<close> to an \<^verbatim>\<open>Integer\<close> column
  and fails when the value is out of its range; the emit comes after the commit.
\<close>

definition move_card :: "nat \<Rightarrow> nat \<Rightarrow> json_body \<Rightarrow> db \<Rightarrow> nat option \<Rightarrow> outcome" where
  "move_card card_id new_list_id body st sess =
     (case current_user st sess of None \<Rightarrow> unauthenticated sess st | Some cu \<Rightarrow>
      (case body of Not_json \<Rightarrow> abort 415 sess st | Bad_body \<Rightarrow> abort 400 sess st
      | Not_object \<Rightarrow> abort 500 sess st
      | Object np \<Rightarrow>
        let new_position = (case np of None \<Rightarrow> 0 | Some p \<Rightarrow> p) in
        (case get_card st card_id of None \<Rightarrow> abort 404 sess st | Some c \<Rightarrow>
         (case get_list st new_list_id of None \<Rightarrow> abort 404 sess st | Some new_list \<Rightarrow>
         (case get_board st (board_id new_list) of None \<Rightarrow> abort 500 sess st | Some b \<Rightarrow>
         (case get_user st (user_id b) of None \<Rightarrow> abort 500 sess st | Some owner \<Rightarrow>
           if uid owner \<noteq> uid cu \<and> \<not> is_collaborator st cu b
           then reply (Json 403 [(''error'', ''Unauthorized'')]) [] [] sess st
           else if \<not> in_integer_range new_position then abort 500 sess st
           else reply (Json 200 [(''message'', ''Card moved successfully'')]) []
                  [Card_moved (cid c) new_list_id (board_id new_list)] sess
                  (set_card_place st (cid c) new_list_id new_position)))))))"

section \<open>Reachable databases\<close>

text \<open>
  One step is one request to a handler that writes the database, with any data and any
  session. The database starts empty (\<^verbatim>\<open>db.create_all()\<close>).
\<close>

inductive step :: "db \<Rightarrow> db \<Rightarrow> bool" where
  step_register: "step st (store (register g m fu fp st sess))"
| step_create_board: "step st (store (create_board fn st sess))"
| step_update_board: "step st (store (update_board i fn st sess))"
| step_delete_board: "step st (store (delete_board i st sess))"
| step_add_collaborator: "step st (store (add_collaborator i fu st sess))"
| step_add_list: "step st (store (add_list i fn st sess))"
| step_update_list: "step st (store (update_list i fn st sess))"
| step_delete_list: "step st (store (delete_list i st sess))"
| step_add_card: "step st (store (add_card i ft fd r st sess))"
| step_update_card: "step st (store (update_card i ft fd r st sess))"
| step_delete_card: "step st (store (delete_card i r st sess))"
| step_move_card: "step st (store (move_card i j body st sess))"

inductive reachable :: "db \<Rightarrow> bool" where
  reachable_empty: "reachable empty_db"
| reachable_step: "reachable st \<Longrightarrow> step st st' \<Longrightarrow> reachable st'"

text \<open>Primary keys are unique in every table, and so are the rows of the secondary table.\<close>

definition primary_keys :: "db \<Rightarrow> bool" where
  "primary_keys st =
     (distinct (map uid (tbl_users st)) \<and> distinct (map bid (tbl_board st)) \<and>
      distinct (map lid (tbl_list st)) \<and> distinct (map cid (tbl_card st)))"

text \<open>The owner of a board is not among the board's collaborator rows.\<close>

definition owner_not_collaborator :: "db \<Rightarrow> bool" where
  "owner_not_collaborator st =
     (\<forall>b \<in> set (tbl_board st). (bid b, user_id b) \<notin> set (board_collaborators st))"

text \<open>Every collaborator row belongs to a board of the database.\<close>

definition collaborator_rows_of_boards :: "db \<Rightarrow> bool" where
  "collaborator_rows_of_boards st =
     (\<forall>r \<in> set (board_collaborators st). fst r \<in> set (map bid (tbl_board st)))"

section \<open>An example database\<close>

text \<open>
  Three users; alice owns board 1 with lists 1 and 3 and has made bob a collaborator;
  carol owns board 2 with list 2. Card 5 is in list 1, card 6 in list 3, card 7 in list 2.
\<close>

definition scenario_db :: db where
  "scenario_db =
     \<lparr>tbl_users =
        [\<lparr>uid = 1, username = ''alice'', password = ''h$alice-pw''\<rparr>,
         \<lparr>uid = 2, username = ''bob'', password = ''h$bob-pw''\<rparr>,
         \<lparr>uid = 3, username = ''carol'', password = ''h$carol-pw''\<rparr>],
      tbl_board =
        [\<lparr>bid = 1, bname = ''Sprint 1'', user_id = 1\<rparr>,
         \<lparr>bid = 2, bname = ''Garden'', user_id = 3\<rparr>],
      tbl_list =
        [\<lparr>lid = 1, lname = ''Todo'', board_id = 1\<rparr>,
         \<lparr>lid = 2, lname = ''Seeds'', board_id = 2\<rparr>,
         \<lparr>lid = 3, lname = ''Doing'', board_id = 1\<rparr>],
      tbl_card =
        [\<lparr>cid = 5, title = ''Write spec'', description = [], position = 0, list_id = 1\<rparr>,
         \<lparr>cid = 6, title = ''Review'', description = ''twice'', position = 2, list_id = 3\<rparr>,
         \<lparr>cid = 7, title = ''Beans'', description = [], position = 0, list_id = 2\<rparr>],
      board_collaborators = [(1, 2)]\<rparr>"

text \<open>A stand-in for werkzeug's pair of functions: the hash of \<open>p\<close> is \<open>h$p\<close>.\<close>

definition toy_hash :: "string \<Rightarrow> string" where
  "toy_hash p = ''h$'' @ p"

definition toy_check :: "string \<Rightarrow> string \<Rightarrow> bool" where
  "toy_check h p = (h = toy_hash p)"

text \<open>
  A database reached from the empty one: alice and bob register, alice creates a board
  and makes bob a collaborator of it.
\<close>

definition after_registration :: db where
  "after_registration =
     store (register toy_hash POST (Some ''bob'') (Some ''bob-pw'')
       (store (register toy_hash POST (Some ''alice'') (Some ''alice-pw'') empty_db None)) None)"

definition shared_board_db :: db where
  "shared_board_db =
     store (add_collaborator 1 (Some ''bob'')
       (store (create_board (Some ''Sprint 1'') after_registration (Some 1))) (Some 1))"

text \<open>
  A database reached from the empty one in which a card has no list: alice and bob
  register, and alice posts a card to list 99 while there is no list at all.
\<close>

definition orphan_db :: db where
  "orphan_db = store (add_card 99 (Some ''Lost'') None None after_registration (Some 1))"

section \<open>Facts about the queries\<close>

lemma fold_max_init: "(a::nat) \<le> fold max xs a"
proof (induction xs arbitrary: a)
  case Nil
  show ?case by simp
next
  case (Cons x xs)
  have "a \<le> max x a" by simp
  also have "\<dots> \<le> fold max xs (max x a)" by (rule Cons.IH)
  finally show ?case by simp
qed

lemma fold_max_ge: "x \<in> set xs \<Longrightarrow> x \<le> fold max xs (a::nat)"
proof (induction xs arbitrary: a)
  case Nil
  then show ?case by simp
next
  case (Cons y ys)
  show ?case
  proof (cases "x = y")
    case True
    have "x \<le> max y a" using True by simp
    also have "\<dots> \<le> fold max ys (max y a)" by (rule fold_max_init)
    finally show ?thesis by simp
  next
    case False
    with Cons.prems have "x \<in> set ys" by simp
    then show ?thesis using Cons.IH by simp
  qed
qed

lemma next_id_fresh: "next_id ids \<notin> set ids"
  using fold_max_ge[of "next_id ids" ids 0] by (auto simp: next_id_def)

lemma find_key_eq: "find (\<lambda>r. k r = i) xs = Some x \<Longrightarrow> k x = i \<and> x \<in> set xs"
  by (induction xs) (auto split: if_splits)

lemma find_none_iff_key: "(find (\<lambda>r. k r = i) xs = None) = (i \<notin> set (map k xs))"
  by (induction xs) auto

lemma find_map_upd:
  "(\<And>x. k (f x) = k x) \<Longrightarrow>
   find (\<lambda>r. k r = i) (map (\<lambda>x. if k x = j then f x else x) xs) =
   map_option (\<lambda>x. if k x = j then f x else x) (find (\<lambda>r. k r = i) xs)"
  by (induction xs) auto

section \<open>Moving a card\<close>

lemma get_card_set_card_place:
  "get_card (set_card_place st j l p) i =
     map_option (\<lambda>c. if cid c = j then c\<lparr>list_id := l, position := p\<rparr> else c) (get_card st i)"
  by (simp add: get_card_def set_card_place_def find_map_upd)

lemma set_card_place_frame:
  "tbl_users (set_card_place st j l p) = tbl_users st"
  "tbl_board (set_card_place st j l p) = tbl_board st"
  "tbl_list (set_card_place st j l p) = tbl_list st"
  "board_collaborators (set_card_place st j l p) = board_collaborators st"
  by (simp_all add: set_card_place_def)

lemma set_card_place_queries:
  "get_user (set_card_place st j l p) k = get_user st k"
  "get_board (set_card_place st j l p) k = get_board st k"
  "get_list (set_card_place st j l p) k = get_list st k"
  "user_by_name (set_card_place st j l p) n = user_by_name st n"
  "is_collaborator (set_card_place st j l p) u b = is_collaborator st u b"
  by (simp_all add: get_user_def get_board_def get_list_def user_by_name_def
      is_collaborator_def collaborators_def set_card_place_frame)

lemma set_card_place_current_user:
  "current_user (set_card_place st j l p) sess = current_user st sess"
  by (simp add: current_user_def set_card_place_queries split: option.splits)

lemma set_card_place_idem:
  "set_card_place (set_card_place st j l p) j l p = set_card_place st j l p"
  by (simp add: set_card_place_def)

text \<open>The only way \<open>move_card\<close> answers 200.\<close>
lemma move_card_ok:
  assumes "response (move_card i l body st sess) = Json 200 kv"
  obtains cu np c nl b ow where
    "current_user st sess = Some cu" "body = Object np" "get_card st i = Some c"
    "get_list st l = Some nl" "get_board st (board_id nl) = Some b"
    "get_user st (user_id b) = Some ow" "uid ow = uid cu \<or> is_collaborator st cu b"
    "in_integer_range (case np of None \<Rightarrow> 0 | Some p \<Rightarrow> p)"
    "move_card i l body st sess =
       reply (Json 200 [(''message'', ''Card moved successfully'')]) []
         [Card_moved i l (board_id nl)] sess
         (set_card_place st i l (case np of None \<Rightarrow> 0 | Some p \<Rightarrow> p))"
  using assms
  by (auto simp: move_card_def reply_def abort_def unauthenticated_def Let_def
      dest: find_key_eq[of cid] simp: get_card_def
      split: option.splits json_body.splits if_splits)

lemmas scenario_defs = scenario_db_def current_user_def get_user_def get_card_def get_list_def
  get_board_def is_collaborator_def collaborators_def user_by_name_def

text \<open>
  Claim C1. An authenticated user who is neither the owner of the destination list's board
  nor one of its collaborators gets the JSON response 403 with body
  \<^verbatim>\<open>{"error": "Unauthorized"}\<close> from \<open>move_card\<close>, not a redirect; nothing is flashed,
  emitted or written, and the card is the row it was (same \<open>list_id\<close>, same
  \<open>position\<close>). The card and the destination list exist, and the list's board and its
  owner are rows of the database.
\<close>

theorem move_card_unauthorized:
  assumes "current_user st sess = Some cu"
    and "get_card st card_id = Some c"
    and "get_list st new_list_id = Some new_list"
    and "get_board st (board_id new_list) = Some b"
    and "get_user st (user_id b) = Some owner"
    and "uid owner \<noteq> uid cu"
    and "\<not> is_collaborator st cu b"
  shows "move_card card_id new_list_id (Object np) st sess =
           reply (Json 403 [(''error'', ''Unauthorized'')]) [] [] sess st \<and>
         get_card (store (move_card card_id new_list_id (Object np) st sess)) card_id = Some c"
  using assms by (simp add: move_card_def reply_def)

theorem move_card_unauthorized_witness:
  "current_user scenario_db (Some 3) = Some \<lparr>uid = 3, username = ''carol'', password = ''h$carol-pw''\<rparr> \<and>
   get_card scenario_db 5 =
     Some \<lparr>cid = 5, title = ''Write spec'', description = [], position = 0, list_id = 1\<rparr> \<and>
   move_card 5 3 (Object (Some 2)) scenario_db (Some 3) =
     reply (Json 403 [(''error'', ''Unauthorized'')]) [] [] (Some 3) scenario_db \<and>
   get_card (store (move_card 5 3 (Object (Some 2)) scenario_db (Some 3))) 5 =
     Some \<lparr>cid = 5, title = ''Write spec'', description = [], position = 0, list_id = 1\<rparr>"
  using move_card_unauthorized [of scenario_db "Some 3"
      "\<lparr>uid = 3, username = ''carol'', password = ''h$carol-pw''\<rparr>" 5
      "\<lparr>cid = 5, title = ''Write spec'', description = [], position = 0, list_id = 1\<rparr>" 3
      "\<lparr>lid = 3, lname = ''Doing'', board_id = 1\<rparr>"
      "\<lparr>bid = 1, bname = ''Sprint 1'', user_id = 1\<rparr>"
      "\<lparr>uid = 1, username = ''alice'', password = ''h$alice-pw''\<rparr>" "Some 2"]
  by (simp add: scenario_defs move_card_def reply_def)

text \<open>
  Claim C7. When \<open>move_card\<close> answers 200 for position \<open>p\<close>, the card's \<open>list_id\<close> is
  the destination list and its \<open>position\<close> is \<open>p\<close> as given, for every integer \<open>p\<close>;
  every other row of \<open>tbl_card\<close> is as before (the table is the old one with the rows of
  that key rewritten), and the other tables are unchanged.
\<close>

theorem move_card_frame:
  assumes "move_card i l (Object (Some p)) st sess = out"
    and "response out = Json 200 [(''message'', ''Card moved successfully'')]"
    and "get_card st i = Some c"
  shows "get_card (store out) i = Some (c\<lparr>list_id := l, position := p\<rparr>) \<and>
         (\<forall>j. j \<noteq> i \<longrightarrow> get_card (store out) j = get_card st j) \<and>
         tbl_card (store out) =
           map (\<lambda>x. if cid x = i then x\<lparr>list_id := l, position := p\<rparr> else x) (tbl_card st) \<and>
         tbl_list (store out) = tbl_list st \<and> tbl_board (store out) = tbl_board st \<and>
         tbl_users (store out) = tbl_users st \<and>
         board_collaborators (store out) = board_collaborators st"
proof -
  from assms(1,2) have ok: "response (move_card i l (Object (Some p)) st sess) =
      Json 200 [(''message'', ''Card moved successfully'')]" by simp
  from ok obtain np and nl :: list_row where np: "Object (Some p) = Object np"
    and eq: "move_card i l (Object (Some p)) st sess =
       reply (Json 200 [(''message'', ''Card moved successfully'')]) []
         [Card_moved i l (board_id nl)] sess
         (set_card_place st i l (case np of None \<Rightarrow> 0 | Some p \<Rightarrow> p))"
    by (rule move_card_ok) blast
  from np have "np = Some p" by simp
  with eq assms(1) have st': "store out = set_card_place st i l p"
    by (auto simp: reply_def)
  have key: "cid c = i" using assms(3) by (auto simp: get_card_def dest: find_key_eq)
  have other: "\<forall>j. j \<noteq> i \<longrightarrow> get_card (store out) j = get_card st j"
  proof (intro allI impI)
    fix j assume "j \<noteq> i"
    show "get_card (store out) j = get_card st j"
    proof (cases "get_card st j")
      case None
      then show ?thesis by (simp add: st' get_card_set_card_place)
    next
      case (Some d)
      then have "cid d = j" by (auto simp: get_card_def dest: find_key_eq)
      with Some \<open>j \<noteq> i\<close> show ?thesis by (simp add: st' get_card_set_card_place)
    qed
  qed
  show ?thesis
    using key assms(3) other
    by (simp add: st' get_card_set_card_place set_card_place_frame) (simp add: set_card_place_def)
qed

text \<open>
  In the example, bob, a collaborator of board 1, moves card 5 to list 3 at position 2,
  the position card 6 of that list already has: card 5 takes it and card 6 keeps it.
\<close>

theorem move_card_frame_witness:
  "response (move_card 5 3 (Object (Some 2)) scenario_db (Some 2)) =
     Json 200 [(''message'', ''Card moved successfully'')] \<and>
   get_card scenario_db 5 =
     Some \<lparr>cid = 5, title = ''Write spec'', description = [], position = 0, list_id = 1\<rparr> \<and>
   get_card (store (move_card 5 3 (Object (Some 2)) scenario_db (Some 2))) 5 =
     Some \<lparr>cid = 5, title = ''Write spec'', description = [], position = 2, list_id = 3\<rparr> \<and>
   get_card (store (move_card 5 3 (Object (Some 2)) scenario_db (Some 2))) 6 =
     Some \<lparr>cid = 6, title = ''Review'', description = ''twice'', position = 2, list_id = 3\<rparr> \<and>
   tbl_list (store (move_card 5 3 (Object (Some 2)) scenario_db (Some 2))) = tbl_list scenario_db"
  using move_card_frame [of 5 3 2 scenario_db "Some 2"
      "move_card 5 3 (Object (Some 2)) scenario_db (Some 2)"
      "\<lparr>cid = 5, title = ''Write spec'', description = [], position = 0, list_id = 1\<rparr>"]
  by (simp add: scenario_defs move_card_def reply_def set_card_place_def in_integer_range_def)

text \<open>
  Claim C6. \<open>move_card\<close> is idempotent: when a call answers 200, the same call on the
  database and session it leaves answers 200 again and gives the same outcome, so the
  database after two calls is the database after one.
\<close>

theorem move_card_idempotent:
  assumes "move_card i l body st sess = out"
    and "response out = Json 200 [(''message'', ''Card moved successfully'')]"
  shows "move_card i l body (store out) (session out) = out"
proof -
  from assms have ok: "response (move_card i l body st sess) =
      Json 200 [(''message'', ''Card moved successfully'')]" by simp
  from ok obtain cu np c nl b ow where h:
    "current_user st sess = Some cu" "body = Object np" "get_card st i = Some c"
    "get_list st l = Some nl" "get_board st (board_id nl) = Some b"
    "get_user st (user_id b) = Some ow" "uid ow = uid cu \<or> is_collaborator st cu b"
    "in_integer_range (case np of None \<Rightarrow> 0 | Some p \<Rightarrow> p)"
    and eq: "move_card i l body st sess =
       reply (Json 200 [(''message'', ''Card moved successfully'')]) []
         [Card_moved i l (board_id nl)] sess
         (set_card_place st i l (case np of None \<Rightarrow> 0 | Some p \<Rightarrow> p))"
    by (rule move_card_ok)
  define p where "p = (case np of None \<Rightarrow> 0 | Some p \<Rightarrow> p)"
  have out: "out = reply (Json 200 [(''message'', ''Card moved successfully'')]) []
         [Card_moved i l (board_id nl)] sess (set_card_place st i l p)"
    using eq assms(1) by (simp add: p_def)
  have key: "cid c = i" using h(3) by (auto simp: get_card_def dest: find_key_eq)
  have "move_card i l (Object np) (set_card_place st i l p) sess =
        reply (Json 200 [(''message'', ''Card moved successfully'')]) []
         [Card_moved i l (board_id nl)] sess (set_card_place st i l p)"
    using h key
    by (auto simp: move_card_def set_card_place_queries set_card_place_current_user
        get_card_set_card_place set_card_place_idem p_def)
  then show ?thesis using out h(2) by (simp add: reply_def)
qed

text \<open>In the example, alice moves card 7 to list 1 at position -4, twice.\<close>

theorem move_card_idempotent_witness:
  "response (move_card 7 1 (Object (Some (- 4))) scenario_db (Some 1)) =
     Json 200 [(''message'', ''Card moved successfully'')] \<and>
   store (move_card 7 1 (Object (Some (- 4)))
            (store (move_card 7 1 (Object (Some (- 4))) scenario_db (Some 1))) (Some 1)) =
     store (move_card 7 1 (Object (Some (- 4))) scenario_db (Some 1)) \<and>
   get_card (store (move_card 7 1 (Object (Some (- 4))) scenario_db (Some 1))) 7 =
     Some \<lparr>cid = 7, title = ''Beans'', description = [], position = - 4, list_id = 1\<rparr>"
  using move_card_idempotent [of 7 1 "Object (Some (- 4))" scenario_db "Some 1"
      "move_card 7 1 (Object (Some (- 4))) scenario_db (Some 1)"]
  by (simp add: scenario_defs move_card_def reply_def set_card_place_def in_integer_range_def)

section \<open>Renaming and deleting a board\<close>

lemma distinct_key_eq:
  "distinct (map k xs) \<Longrightarrow> x \<in> set xs \<Longrightarrow> y \<in> set xs \<Longrightarrow> k x = k y \<Longrightarrow> x = y"
  by (auto simp: distinct_map dest: inj_onD)

lemma find_filter_other: "find (\<lambda>r. k r = i) (filter (\<lambda>r. k r \<noteq> i) xs) = None"
  by (induction xs) auto

lemma get_board_set_board_name:
  "get_board st i = Some b \<Longrightarrow> get_board (set_board_name st i n) i = Some (b\<lparr>bname := n\<rparr>)"
  by (auto simp: get_board_def set_board_name_def find_map_upd dest: find_key_eq)

lemma get_board_delete_board_rows: "get_board (delete_board_rows st i) i = None"
  by (simp add: get_board_def delete_board_rows_def Let_def find_filter_other)

text \<open>
  Claim C2. For an existing board and an authenticated user: when the user is not the
  board's owner (whether or not the user is a collaborator of the board), \<open>update_board\<close>
  and \<open>delete_board\<close> flash "Unauthorized action." and redirect to the dashboard, and the
  database is the one before, so the board keeps its name and stays; when the user is the
  owner, the rename is applied and the delete removes the board.
\<close>

theorem board_owner_only:
  assumes "current_user st sess = Some cu"
    and "get_board st i = Some b"
    and "get_user st (user_id b) = Some owner"
  shows "(uid owner \<noteq> uid cu \<longrightarrow>
            update_board i fn st sess =
              reply (Redirect To_dashboard) [Unauthorized_action] [] sess st \<and>
            delete_board i st sess =
              reply (Redirect To_dashboard) [Unauthorized_action] [] sess st) \<and>
         (uid owner = uid cu \<longrightarrow>
            update_board i (Some n) st sess =
              reply (Redirect To_dashboard) [Board_renamed] [Refresh_dashboard] sess
                (set_board_name st i n) \<and>
            get_board (set_board_name st i n) i = Some (b\<lparr>bname := n\<rparr>) \<and>
            delete_board i st sess =
              reply (Redirect To_dashboard) [Board_deleted] [Refresh_dashboard] sess
                (delete_board_rows st i) \<and>
            get_board (delete_board_rows st i) i = None)"
proof -
  have key: "bid b = i" using assms(2) by (auto simp: get_board_def dest: find_key_eq)
  show ?thesis
    using assms key
    by (simp add: update_board_def delete_board_def get_board_set_board_name
        get_board_delete_board_rows)
qed

text \<open>
  In the example bob is a collaborator of alice's board 1: his rename and his delete are
  refused; alice's rename and delete go through.
\<close>

theorem board_owner_only_witness:
  "update_board 1 (Some ''Mine'') scenario_db (Some 2) =
     reply (Redirect To_dashboard) [Unauthorized_action] [] (Some 2) scenario_db \<and>
   delete_board 1 scenario_db (Some 2) =
     reply (Redirect To_dashboard) [Unauthorized_action] [] (Some 2) scenario_db \<and>
   is_collaborator scenario_db \<lparr>uid = 2, username = ''bob'', password = ''h$bob-pw''\<rparr>
     \<lparr>bid = 1, bname = ''Sprint 1'', user_id = 1\<rparr> \<and>
   get_board (store (update_board 1 (Some ''Sprint 2'') scenario_db (Some 1))) 1 =
     Some \<lparr>bid = 1, bname = ''Sprint 2'', user_id = 1\<rparr> \<and>
   flashes (delete_board 1 scenario_db (Some 1)) = [Board_deleted] \<and>
   get_board (store (delete_board 1 scenario_db (Some 1))) 1 = None"
  using board_owner_only [of scenario_db "Some 2"
      "\<lparr>uid = 2, username = ''bob'', password = ''h$bob-pw''\<rparr>" 1
      "\<lparr>bid = 1, bname = ''Sprint 1'', user_id = 1\<rparr>"
      "\<lparr>uid = 1, username = ''alice'', password = ''h$alice-pw''\<rparr>" "Some ''Mine''" "''x''"]
    board_owner_only [of scenario_db "Some 1"
      "\<lparr>uid = 1, username = ''alice'', password = ''h$alice-pw''\<rparr>" 1
      "\<lparr>bid = 1, bname = ''Sprint 1'', user_id = 1\<rparr>"
      "\<lparr>uid = 1, username = ''alice'', password = ''h$alice-pw''\<rparr>" None "''Sprint 2''"]
  by (simp add: scenario_defs reply_def)

lemma delete_board_ok:
  assumes "flashes (delete_board i st sess) = [Board_deleted]"
  shows "store (delete_board i st sess) = delete_board_rows st i"
  using assms
  by (auto simp: delete_board_def reply_def abort_def unauthenticated_def get_board_def
      dest: find_key_eq[of bid] split: option.splits if_splits)

text \<open>
  Claim C3. After \<open>delete_board\<close> has deleted board \<open>i\<close>, the board is not found, no list
  that belonged to it and no card of such a list is a row any more, looking any of them up
  by its key finds nothing, and no collaborator row of the board is left. The lookups by
  key rely on primary keys being unique.
\<close>

theorem delete_board_cascade:
  assumes "delete_board i st sess = out"
    and "flashes out = [Board_deleted]"
    and "primary_keys st"
  shows "get_board (store out) i = None \<and>
         (\<forall>l \<in> set (tbl_list st). board_id l = i \<longrightarrow>
            l \<notin> set (tbl_list (store out)) \<and> get_list (store out) (lid l) = None \<and>
            (\<forall>c \<in> set (tbl_card st). list_id c = lid l \<longrightarrow>
               c \<notin> set (tbl_card (store out)) \<and> get_card (store out) (cid c) = None)) \<and>
         (\<forall>r \<in> set (board_collaborators (store out)). fst r \<noteq> i)"
proof -
  have st': "store out = delete_board_rows st i"
    using assms(1,2) delete_board_ok by blast
  have dl: "distinct (map lid (tbl_list st))" and dc: "distinct (map cid (tbl_card st))"
    using assms(3) by (simp_all add: primary_keys_def)
  have lists: "get_list (store out) (lid l) = None"
    if "l \<in> set (tbl_list st)" "board_id l = i" for l
  proof -
    have "l' \<in> set (tbl_list st) \<Longrightarrow> board_id l' \<noteq> i \<Longrightarrow> lid l \<noteq> lid l'" for l'
      using that distinct_key_eq[OF dl, of l' l] by auto
    then show ?thesis
      by (auto simp: st' get_list_def delete_board_rows_def Let_def find_none_iff_key)
  qed
  have cards: "get_card (store out) (cid c) = None"
    if "l \<in> set (tbl_list st)" "board_id l = i" "c \<in> set (tbl_card st)" "list_id c = lid l"
    for l c
  proof -
    have "c' \<in> set (tbl_card st) \<Longrightarrow> cid c' = cid c \<Longrightarrow> c' = c" for c'
      using that distinct_key_eq[OF dc, of c' c] by auto
    then show ?thesis using that
      by (auto simp: st' get_card_def delete_board_rows_def Let_def find_none_iff_key)
  qed
  show ?thesis
    using lists cards
    by (auto simp: st' get_board_delete_board_rows) (auto simp: delete_board_rows_def Let_def)
qed

text \<open>
  In the example alice deletes board 1: lists 1 and 3, cards 5 and 6 and bob's
  collaborator row go with it; carol's list 2 and card 7 stay.
\<close>

theorem delete_board_cascade_witness:
  "flashes (delete_board 1 scenario_db (Some 1)) = [Board_deleted] \<and>
   primary_keys scenario_db \<and>
   get_board (store (delete_board 1 scenario_db (Some 1))) 1 = None \<and>
   get_list (store (delete_board 1 scenario_db (Some 1))) 1 = None \<and>
   get_list (store (delete_board 1 scenario_db (Some 1))) 3 = None \<and>
   get_card (store (delete_board 1 scenario_db (Some 1))) 5 = None \<and>
   get_card (store (delete_board 1 scenario_db (Some 1))) 6 = None \<and>
   board_collaborators (store (delete_board 1 scenario_db (Some 1))) = [] \<and>
   map lid (tbl_list (store (delete_board 1 scenario_db (Some 1)))) = [2] \<and>
   map cid (tbl_card (store (delete_board 1 scenario_db (Some 1)))) = [7]"
  using delete_board_cascade [of 1 scenario_db "Some 1" "delete_board 1 scenario_db (Some 1)"]
  by (simp add: scenario_defs delete_board_def reply_def delete_board_rows_def primary_keys_def)

section \<open>Registration and login\<close>

lemma find_append_fresh:
  "i \<notin> set (map k xs) \<Longrightarrow> k x = i \<Longrightarrow> find (\<lambda>r. k r = i) (xs @ [x]) = Some x"
  by (induction xs) auto

text \<open>
  Claim C4. Registering a username that some user already has flashes "Username already
  exists!", redirects to the registration page and leaves the database as it was: the
  account keeps its id and stored hash, and no user is added. Registering a new username
  adds one user whose stored password is the value of \<^verbatim>\<open>generate_password_hash\<close> on the
  password; the handler never stores the password itself, only what that function returns.
\<close>

theorem register_conflict:
  "(user_by_name st u = Some x \<longrightarrow>
      register g POST (Some u) (Some p) st sess =
        reply (Redirect To_register) [Username_exists] [] sess st) \<and>
   (user_by_name st u = None \<longrightarrow>
      register g POST (Some u) (Some p) st sess =
        reply (Redirect To_login) [Registration_successful] [] sess
          (st\<lparr>tbl_users := tbl_users st @
               [\<lparr>uid = next_id (map uid (tbl_users st)), username = u, password = g p\<rparr>]\<rparr>) \<and>
      user_by_name (store (register g POST (Some u) (Some p) st sess)) u =
        Some \<lparr>uid = next_id (map uid (tbl_users st)), username = u, password = g p\<rparr>)"
proof -
  have "user_by_name (st\<lparr>tbl_users := tbl_users st @
               [\<lparr>uid = next_id (map uid (tbl_users st)), username = u, password = g p\<rparr>]\<rparr>) u =
        Some \<lparr>uid = next_id (map uid (tbl_users st)), username = u, password = g p\<rparr>"
    if "user_by_name st u = None"
    using that by (simp add: user_by_name_def find_none_iff_key find_append_fresh)
  then show ?thesis
    by (simp add: register_def reply_def Let_def)
qed

theorem register_conflict_witness:
  "user_by_name scenario_db ''bob'' =
     Some \<lparr>uid = 2, username = ''bob'', password = ''h$bob-pw''\<rparr> \<and>
   register toy_hash POST (Some ''bob'') (Some ''other'') scenario_db None =
     reply (Redirect To_register) [Username_exists] [] None scenario_db \<and>
   user_by_name scenario_db ''dave'' = None \<and>
   user_by_name (store (register toy_hash POST (Some ''dave'') (Some ''pw'') scenario_db None))
     ''dave'' = Some \<lparr>uid = 4, username = ''dave'', password = ''h$pw''\<rparr>"
  using register_conflict [of scenario_db "''bob''"
      "\<lparr>uid = 2, username = ''bob'', password = ''h$bob-pw''\<rparr>" toy_hash "''other''" None]
    register_conflict [of scenario_db "''dave''"
      "\<lparr>uid = 2, username = ''bob'', password = ''h$bob-pw''\<rparr>" toy_hash "''pw''" None]
  by (simp add: scenario_defs toy_hash_def next_id_def register_def reply_def)

text \<open>
  Claim C8. A failed login gives the same outcome whether the username is unknown or the
  username is known and the password does not verify: the login page with the one message
  "Invalid credentials!", the session and the database untouched. The two causes cannot be
  told apart from the response.
\<close>

theorem login_failure_generic:
  assumes "user_by_name st u1 = None"
    and "user_by_name st u2 = Some x"
    and "\<not> chk (password x) p2"
  shows "login chk POST (Some u1) (Some p1) st sess =
           reply (Render Login_html) [Invalid_credentials] [] sess st \<and>
         login chk POST (Some u2) (Some p2) st sess =
           reply (Render Login_html) [Invalid_credentials] [] sess st"
  using assms by (simp add: login_def)

theorem login_failure_generic_witness:
  "user_by_name scenario_db ''mallory'' = None \<and>
   user_by_name scenario_db ''alice'' =
     Some \<lparr>uid = 1, username = ''alice'', password = ''h$alice-pw''\<rparr> \<and>
   \<not> toy_check ''h$alice-pw'' ''guess'' \<and>
   login toy_check POST (Some ''mallory'') (Some ''guess'') scenario_db None =
     login toy_check POST (Some ''alice'') (Some ''guess'') scenario_db None \<and>
   flashes (login toy_check POST (Some ''alice'') (Some ''guess'') scenario_db None) =
     [Invalid_credentials] \<and>
   response (login toy_check POST (Some ''alice'') (Some ''alice-pw'') scenario_db None) =
     Redirect To_dashboard"
  using login_failure_generic [of scenario_db "''mallory''" "''alice''"
      "\<lparr>uid = 1, username = ''alice'', password = ''h$alice-pw''\<rparr>" toy_check "''guess''"
      "''guess''" None]
  by (simp add: scenario_defs toy_check_def toy_hash_def login_def reply_def)

section \<open>Lists and cards\<close>

text \<open>
  Claim C9, amended. For every authenticated user and every board id that an \<^verbatim>\<open>Integer\<close>
  column can hold (below \<open>2^63\<close>), \<open>add_list\<close> adds the list under that board id and
  answers with the success message: the handler looks at neither the board's owner nor its
  collaborators (it does not even look the board up). The claim as written, for every
  board id, fails where the id is out of the column's range: the commit raises and no list
  is added.
\<close>

theorem add_list_no_ownership_check:
  assumes "current_user st sess = Some cu"
    and "in_integer_range (int b)"
  shows "add_list b (Some name) st sess =
           reply (Redirect (To_view_board b)) [List_added] [Refresh_board b] sess
             (st\<lparr>tbl_list := tbl_list st @
                  [\<lparr>lid = next_id (map lid (tbl_list st)), lname = name, board_id = b\<rparr>]\<rparr>) \<and>
         get_list (store (add_list b (Some name) st sess)) (next_id (map lid (tbl_list st))) =
           Some \<lparr>lid = next_id (map lid (tbl_list st)), lname = name, board_id = b\<rparr>"
proof -
  let ?new = "\<lparr>lid = next_id (map lid (tbl_list st)), lname = name, board_id = b\<rparr>"
  have "find (\<lambda>l. lid l = next_id (map lid (tbl_list st))) (tbl_list st @ [?new]) = Some ?new"
    by (rule find_append_fresh) (rule next_id_fresh, simp)
  then show ?thesis
    using assms by (simp add: add_list_def reply_def Let_def get_list_def)
qed

text \<open>
  In the example carol, who has no part in board 1, adds a list to it, and one to a board
  id that no board has.
\<close>

theorem add_list_no_ownership_check_witness:
  "current_user scenario_db (Some 3) =
     Some \<lparr>uid = 3, username = ''carol'', password = ''h$carol-pw''\<rparr> \<and>
   in_integer_range (int 1) \<and> in_integer_range (int 99) \<and>
   get_board scenario_db 1 = Some \<lparr>bid = 1, bname = ''Sprint 1'', user_id = 1\<rparr> \<and>
   \<not> is_collaborator scenario_db \<lparr>uid = 3, username = ''carol'', password = ''h$carol-pw''\<rparr>
     \<lparr>bid = 1, bname = ''Sprint 1'', user_id = 1\<rparr> \<and>
   flashes (add_list 1 (Some ''Intruder'') scenario_db (Some 3)) = [List_added] \<and>
   get_list (store (add_list 1 (Some ''Intruder'') scenario_db (Some 3))) 4 =
     Some \<lparr>lid = 4, lname = ''Intruder'', board_id = 1\<rparr> \<and>
   flashes (add_list 99 (Some ''Nowhere'') scenario_db (Some 3)) = [List_added]"
  using add_list_no_ownership_check [of scenario_db "Some 3"
      "\<lparr>uid = 3, username = ''carol'', password = ''h$carol-pw''\<rparr>" 1 "''Intruder''"]
    add_list_no_ownership_check [of scenario_db "Some 3"
      "\<lparr>uid = 3, username = ''carol'', password = ''h$carol-pw''\<rparr>" 99 "''Nowhere''"]
  by (simp add: scenario_defs next_id_def reply_def add_list_def in_integer_range_def)

text \<open>
  The board id \<open>2^63\<close> is a path the route accepts. Alice is authenticated and sends a
  list name; the answer is status 500, nothing is flashed and the table of lists is as it
  was.
\<close>

theorem add_list_every_board_id_counterexample:
  "current_user scenario_db (Some 1) =
     Some \<lparr>uid = 1, username = ''alice'', password = ''h$alice-pw''\<rparr> \<and>
   response (add_list 9223372036854775808 (Some ''Later'') scenario_db (Some 1)) = Abort 500 \<and>
   flashes (add_list 9223372036854775808 (Some ''Later'') scenario_db (Some 1)) = [] \<and>
   store (add_list 9223372036854775808 (Some ''Later'') scenario_db (Some 1)) = scenario_db"
  by (simp add: scenario_defs add_list_def abort_def reply_def in_integer_range_def)

lemma get_list_set_list_name:
  "get_list st i = Some l \<Longrightarrow> get_list (set_list_name st i n) i = Some (l\<lparr>lname := n\<rparr>)"
  by (auto simp: get_list_def set_list_name_def find_map_upd dest: find_key_eq)

lemma get_list_delete_list_rows: "get_list (delete_list_rows st i) i = None"
  by (simp add: get_list_def delete_list_rows_def find_filter_other)

lemma get_card_set_card_text:
  "get_card st i = Some c \<Longrightarrow>
   get_card (set_card_text st i t d) i = Some (c\<lparr>title := t, description := d\<rparr>)"
  by (auto simp: get_card_def set_card_text_def find_map_upd dest: find_key_eq)

lemma get_list_set_card_text: "get_list (set_card_text st i t d) k = get_list st k"
  by (simp add: get_list_def set_card_text_def)

lemma get_card_delete_card_row: "get_card (delete_card_row st i) i = None"
  by (simp add: get_card_def delete_card_row_def find_filter_other)

text \<open>
  What the four handlers do for an authenticated user, whoever the user is: an existing
  list is renamed or deleted with its cards, and a card whose list row exists is rewritten
  or deleted, each with its success message. Only the rows of the given key are written
  or removed. No hypothesis relates the user to the board.
\<close>

lemma list_card_edits_with_list_row:
  assumes "current_user st sess = Some cu"
  shows "(\<forall>l. get_list st i = Some l \<longrightarrow>
            update_list i (Some n) st sess =
              reply (Redirect (To_view_board (board_id l))) [List_updated]
                [Refresh_board (board_id l)] sess
                (st\<lparr>tbl_list := map (\<lambda>x. if lid x = i then x\<lparr>lname := n\<rparr> else x) (tbl_list st)\<rparr>) \<and>
            get_list (store (update_list i (Some n) st sess)) i = Some (l\<lparr>lname := n\<rparr>) \<and>
            delete_list i st sess =
              reply (Redirect (To_view_board (board_id l))) [List_deleted]
                [Refresh_board (board_id l)] sess
                (st\<lparr>tbl_list := filter (\<lambda>x. lid x \<noteq> i) (tbl_list st),
                    tbl_card := filter (\<lambda>x. list_id x \<noteq> i) (tbl_card st)\<rparr>) \<and>
            get_list (store (delete_list i st sess)) i = None) \<and>
         (\<forall>c l. get_card st j = Some c \<and> get_list st (list_id c) = Some l \<longrightarrow>
            update_card j (Some t) fd r st sess =
              reply (Redirect (To_referrer r)) [Card_updated] [Refresh_board (board_id l)] sess
                (st\<lparr>tbl_card :=
                     map (\<lambda>x. if cid x = j
                          then x\<lparr>title := t,
                                 description := (case fd of None \<Rightarrow> [] | Some d \<Rightarrow> d)\<rparr>
                          else x) (tbl_card st)\<rparr>) \<and>
            get_card (store (update_card j (Some t) fd r st sess)) j =
              Some (c\<lparr>title := t, description := (case fd of None \<Rightarrow> [] | Some d \<Rightarrow> d)\<rparr>) \<and>
            delete_card j r st sess =
              reply (Redirect (To_referrer r)) [Card_deleted] [Refresh_board (board_id l)] sess
                (st\<lparr>tbl_card := filter (\<lambda>x. cid x \<noteq> j) (tbl_card st)\<rparr>) \<and>
            get_card (store (delete_card j r st sess)) j = None)"
proof -
  have lists: "lid l = i" if "get_list st i = Some l" for l
    using that by (auto simp: get_list_def dest: find_key_eq)
  have cards: "cid c = j" if "get_card st j = Some c" for c
    using that by (auto simp: get_card_def dest: find_key_eq)
  have writes:
    "set_list_name st i n =
       st\<lparr>tbl_list := map (\<lambda>x. if lid x = i then x\<lparr>lname := n\<rparr> else x) (tbl_list st)\<rparr>"
    "delete_list_rows st i =
       st\<lparr>tbl_list := filter (\<lambda>x. lid x \<noteq> i) (tbl_list st),
          tbl_card := filter (\<lambda>x. list_id x \<noteq> i) (tbl_card st)\<rparr>"
    "set_card_text st j t (case fd of None \<Rightarrow> [] | Some d \<Rightarrow> d) =
       st\<lparr>tbl_card :=
            map (\<lambda>x. if cid x = j
                 then x\<lparr>title := t, description := (case fd of None \<Rightarrow> [] | Some d \<Rightarrow> d)\<rparr>
                 else x) (tbl_card st)\<rparr>"
    "delete_card_row st j = st\<lparr>tbl_card := filter (\<lambda>x. cid x \<noteq> j) (tbl_card st)\<rparr>"
    by (simp_all add: set_list_name_def delete_list_rows_def set_card_text_def
        delete_card_row_def)
  have lists_part:
    "update_list i (Some n) st sess =
       reply (Redirect (To_view_board (board_id l))) [List_updated]
         [Refresh_board (board_id l)] sess (set_list_name st i n) \<and>
     get_list (store (update_list i (Some n) st sess)) i = Some (l\<lparr>lname := n\<rparr>) \<and>
     delete_list i st sess =
       reply (Redirect (To_view_board (board_id l))) [List_deleted]
         [Refresh_board (board_id l)] sess (delete_list_rows st i) \<and>
     get_list (store (delete_list i st sess)) i = None"
    if "get_list st i = Some l" for l
    using assms that lists[OF that]
    by (simp add: update_list_def delete_list_def get_list_set_list_name
        get_list_delete_list_rows reply_def)
  have cards_part:
    "update_card j (Some t) fd r st sess =
       reply (Redirect (To_referrer r)) [Card_updated] [Refresh_board (board_id l)] sess
         (set_card_text st j t (case fd of None \<Rightarrow> [] | Some d \<Rightarrow> d)) \<and>
     get_card (store (update_card j (Some t) fd r st sess)) j =
       Some (c\<lparr>title := t, description := (case fd of None \<Rightarrow> [] | Some d \<Rightarrow> d)\<rparr>) \<and>
     delete_card j r st sess =
       reply (Redirect (To_referrer r)) [Card_deleted] [Refresh_board (board_id l)] sess
         (delete_card_row st j) \<and>
     get_card (store (delete_card j r st sess)) j = None"
    if "get_card st j = Some c" "get_list st (list_id c) = Some l" for c l
    using assms that cards[OF that(1)]
    by (simp add: update_card_def delete_card_def Let_def get_card_set_card_text
        get_list_set_card_text get_card_delete_card_row reply_def)
  show ?thesis
    using lists_part cards_part unfolding writes by blast
qed

text \<open>In the example carol edits and deletes list 1 and card 5 of alice's board.\<close>

lemma list_card_edits_with_list_row_example:
  "current_user scenario_db (Some 3) =
     Some \<lparr>uid = 3, username = ''carol'', password = ''h$carol-pw''\<rparr> \<and>
   \<not> is_collaborator scenario_db \<lparr>uid = 3, username = ''carol'', password = ''h$carol-pw''\<rparr>
     \<lparr>bid = 1, bname = ''Sprint 1'', user_id = 1\<rparr> \<and>
   get_list (store (update_list 1 (Some ''Done'') scenario_db (Some 3))) 1 =
     Some \<lparr>lid = 1, lname = ''Done'', board_id = 1\<rparr> \<and>
   flashes (delete_list 1 scenario_db (Some 3)) = [List_deleted] \<and>
   map lid (tbl_list (store (delete_list 1 scenario_db (Some 3)))) = [2, 3] \<and>
   map cid (tbl_card (store (delete_list 1 scenario_db (Some 3)))) = [6, 7] \<and>
   get_card (store (update_card 5 (Some ''Gone'') (Some ''x'') None scenario_db (Some 3))) 5 =
     Some \<lparr>cid = 5, title = ''Gone'', description = ''x'', position = 0, list_id = 1\<rparr> \<and>
   flashes (delete_card 5 None scenario_db (Some 3)) = [Card_deleted] \<and>
   map cid (tbl_card (store (delete_card 5 None scenario_db (Some 3)))) = [6, 7]"
  using list_card_edits_with_list_row [of scenario_db "Some 3"
      "\<lparr>uid = 3, username = ''carol'', password = ''h$carol-pw''\<rparr>" 1 "''Done''" 5 "''Gone''"
      "Some ''x''" None]
  by (simp add: scenario_defs reply_def)

lemma orphan_db_eval:
  "orphan_db =
     \<lparr>tbl_users = [\<lparr>uid = 1, username = ''alice'', password = ''h$alice-pw''\<rparr>,
                   \<lparr>uid = 2, username = ''bob'', password = ''h$bob-pw''\<rparr>],
      tbl_board = [], tbl_list = [],
      tbl_card = [\<lparr>cid = 1, title = ''Lost'', description = [], position = 0, list_id = 99\<rparr>],
      board_collaborators = []\<rparr>"
  by (simp add: orphan_db_def after_registration_def register_def add_card_def reply_def
      empty_db_def user_by_name_def next_id_def toy_hash_def current_user_def get_user_def
      get_list_def in_integer_range_def Let_def numeral_2_eq_2)

text \<open>
  Claim C10. The claim is that \<open>update_list\<close>, \<open>delete_list\<close>, \<open>update_card\<close> and
  \<open>delete_card\<close> succeed and apply their mutation for every authenticated user and every
  existing list or card. The code breaks it on an existing card whose list row does not
  exist. Such a card is one request away: \<open>add_card\<close> does not look the list up, and its
  \<^verbatim>\<open>try\<close>/\<^verbatim>\<open>except\<close> (app.py, lines 267-270) provides for the list that cannot be resolved.
  \<open>delete_card\<close> and \<open>update_card\<close> read \<^verbatim>\<open>card.list.board_id\<close> without that provision. In
  the reached database \<open>orphan_db\<close>, for alice, who created card 1:
  \<^item> \<open>delete_card\<close> raises before it deletes (line 291): status 500, the card is still
    there;
  \<^item> \<open>update_card\<close> commits the new title, flashes the success message and then raises at
    the emit (line 283): status 500, with the write applied and nothing emitted.
\<close>

theorem card_edits_fail_without_list_row:
  "reachable orphan_db \<and>
   current_user orphan_db (Some 1) =
     Some \<lparr>uid = 1, username = ''alice'', password = ''h$alice-pw''\<rparr> \<and>
   get_card orphan_db 1 =
     Some \<lparr>cid = 1, title = ''Lost'', description = [], position = 0, list_id = 99\<rparr> \<and>
   get_list orphan_db 99 = None \<and>
   flashes (add_card 99 (Some ''Lost'') None None after_registration (Some 1)) = [Card_added] \<and>
   emitted (add_card 99 (Some ''Lost'') None None after_registration (Some 1)) =
     [Refresh_board 99] \<and>
   delete_card 1 None orphan_db (Some 1) = abort 500 (Some 1) orphan_db \<and>
   get_card (store (delete_card 1 None orphan_db (Some 1))) 1 =
     Some \<lparr>cid = 1, title = ''Lost'', description = [], position = 0, list_id = 99\<rparr> \<and>
   response (update_card 1 (Some ''Found'') None None orphan_db (Some 1)) = Abort 500 \<and>
   flashes (update_card 1 (Some ''Found'') None None orphan_db (Some 1)) = [Card_updated] \<and>
   emitted (update_card 1 (Some ''Found'') None None orphan_db (Some 1)) = [] \<and>
   get_card (store (update_card 1 (Some ''Found'') None None orphan_db (Some 1))) 1 =
     Some \<lparr>cid = 1, title = ''Found'', description = [], position = 0, list_id = 99\<rparr>"
proof -
  have r: "reachable orphan_db"
    unfolding orphan_db_def after_registration_def
    by (intro reachable_step[OF _ step_add_card] reachable_step[OF _ step_register]
        reachable_empty)
  have added: "add_card 99 (Some ''Lost'') None None after_registration (Some 1) =
      reply (Redirect (To_referrer None)) [Card_added] [Refresh_board 99] (Some 1) orphan_db"
    unfolding orphan_db_eval
    by (simp add: after_registration_def register_def add_card_def reply_def
        empty_db_def user_by_name_def next_id_def toy_hash_def current_user_def get_user_def
        get_list_def in_integer_range_def Let_def numeral_2_eq_2)
  have flashed: "flashes (add_card 99 (Some ''Lost'') None None after_registration (Some 1)) =
      [Card_added]"
    and sent: "emitted (add_card 99 (Some ''Lost'') None None after_registration (Some 1)) =
      [Refresh_board 99]"
    unfolding added by (simp_all add: reply_def)
  have actor: "current_user orphan_db (Some 1) =
      Some \<lparr>uid = 1, username = ''alice'', password = ''h$alice-pw''\<rparr>"
    and card: "get_card orphan_db 1 =
      Some \<lparr>cid = 1, title = ''Lost'', description = [], position = 0, list_id = 99\<rparr>"
    and no_list: "get_list orphan_db 99 = None"
    by (simp_all add: orphan_db_eval current_user_def get_user_def get_card_def get_list_def)
  have deleted: "delete_card 1 None orphan_db (Some 1) = abort 500 (Some 1) orphan_db"
    using actor card no_list by (simp add: delete_card_def)
  have still: "get_card (store (delete_card 1 None orphan_db (Some 1))) 1 =
      Some \<lparr>cid = 1, title = ''Lost'', description = [], position = 0, list_id = 99\<rparr>"
    unfolding deleted using card by (simp add: abort_def reply_def)
  have updated: "update_card 1 (Some ''Found'') None None orphan_db (Some 1) =
      reply (Abort 500) [Card_updated] [] (Some 1) (set_card_text orphan_db 1 ''Found'' [])"
    using actor card no_list
    by (simp add: update_card_def get_list_set_card_text Let_def)
  have written: "get_card (store (update_card 1 (Some ''Found'') None None orphan_db (Some 1))) 1 =
      Some \<lparr>cid = 1, title = ''Found'', description = [], position = 0, list_id = 99\<rparr>"
    using get_card_set_card_text[OF card, of "''Found''" "[]"]
    unfolding updated by (simp add: reply_def)
  have answered: "response (update_card 1 (Some ''Found'') None None orphan_db (Some 1)) = Abort 500"
    and told: "flashes (update_card 1 (Some ''Found'') None None orphan_db (Some 1)) =
      [Card_updated]"
    and silent: "emitted (update_card 1 (Some ''Found'') None None orphan_db (Some 1)) = []"
    unfolding updated by (simp_all add: reply_def)
  show ?thesis
    using r actor card no_list flashed sent deleted still answered told silent written
    by blast
qed

section \<open>Invariants of reachable databases\<close>

text \<open>
  What each handler may write to \<open>tbl_board\<close> and \<open>board_collaborators\<close>: eight handlers
  write neither; the other four leave the database as it is or apply one write.
\<close>

lemmas outcome_defs = reply_def abort_def unauthenticated_def

lemma boards_untouched:
  "tbl_board (store (register g m fu fp st sess)) = tbl_board st \<and>
   board_collaborators (store (register g m fu fp st sess)) = board_collaborators st"
  "tbl_board (store (add_list i fn st sess)) = tbl_board st \<and>
   board_collaborators (store (add_list i fn st sess)) = board_collaborators st"
  "tbl_board (store (update_list i fn st sess)) = tbl_board st \<and>
   board_collaborators (store (update_list i fn st sess)) = board_collaborators st"
  "tbl_board (store (delete_list i st sess)) = tbl_board st \<and>
   board_collaborators (store (delete_list i st sess)) = board_collaborators st"
  "tbl_board (store (add_card i ft fd r st sess)) = tbl_board st \<and>
   board_collaborators (store (add_card i ft fd r st sess)) = board_collaborators st"
  "tbl_board (store (update_card i ft fd r st sess)) = tbl_board st \<and>
   board_collaborators (store (update_card i ft fd r st sess)) = board_collaborators st"
  "tbl_board (store (delete_card i r st sess)) = tbl_board st \<and>
   board_collaborators (store (delete_card i r st sess)) = board_collaborators st"
  "tbl_board (store (move_card i j body st sess)) = tbl_board st \<and>
   board_collaborators (store (move_card i j body st sess)) = board_collaborators st"
  by (simp_all add: register_def add_list_def update_list_def delete_list_def add_card_def
      update_card_def delete_card_def move_card_def outcome_defs Let_def set_list_name_def
      delete_list_rows_def set_card_text_def delete_card_row_def set_card_place_def
      split: option.splits json_body.splits)

lemma create_board_store:
  "store (create_board fn st sess) = st \<or>
   (\<exists>n u. store (create_board fn st sess) =
      st\<lparr>tbl_board := tbl_board st @
           [\<lparr>bid = next_id (map bid (tbl_board st)), bname = n, user_id = u\<rparr>]\<rparr>)"
  by (auto simp: create_board_def outcome_defs Let_def split: option.splits)

lemma update_board_store:
  "store (update_board i fn st sess) = st \<or>
   (\<exists>j n. store (update_board i fn st sess) = set_board_name st j n)"
  by (auto simp: update_board_def outcome_defs split: option.splits)

lemma delete_board_store:
  "store (delete_board i st sess) = st \<or>
   (\<exists>j. store (delete_board i st sess) = delete_board_rows st j)"
  by (auto simp: delete_board_def outcome_defs split: option.splits)

lemma add_collaborator_store:
  "store (add_collaborator i fu st sess) = st \<or>
   (\<exists>b k. get_board st i = Some b \<and> k \<noteq> user_id b \<and>
      store (add_collaborator i fu st sess) =
        st\<lparr>board_collaborators := board_collaborators st @ [(bid b, k)]\<rparr>)"
  by (auto simp: add_collaborator_def outcome_defs Let_def get_user_def
      dest!: find_key_eq[of uid] split: option.splits)

lemma board_inv_create:
  fixes n :: string and u :: nat
  assumes "distinct (map bid (tbl_board st))" "collaborator_rows_of_boards st"
    "owner_not_collaborator st"
  defines "st' \<equiv> st\<lparr>tbl_board := tbl_board st @
           [\<lparr>bid = next_id (map bid (tbl_board st)), bname = n, user_id = u\<rparr>]\<rparr>"
  shows "distinct (map bid (tbl_board st')) \<and> collaborator_rows_of_boards st' \<and>
         owner_not_collaborator st'"
proof -
  have fresh: "next_id (map bid (tbl_board st)) \<notin> set (map bid (tbl_board st))"
    by (rule next_id_fresh)
  have "(next_id (map bid (tbl_board st)), u) \<notin> set (board_collaborators st)"
    using assms(2) fresh by (force simp: collaborator_rows_of_boards_def)
  then show ?thesis
    using assms(1-3) fresh
    by (auto simp: st'_def collaborator_rows_of_boards_def owner_not_collaborator_def)
qed

lemma board_inv_rename:
  assumes "distinct (map bid (tbl_board st))" "collaborator_rows_of_boards st"
    "owner_not_collaborator st"
  shows "distinct (map bid (tbl_board (set_board_name st j n))) \<and>
         collaborator_rows_of_boards (set_board_name st j n) \<and>
         owner_not_collaborator (set_board_name st j n)"
proof -
  have ids: "map bid (tbl_board (set_board_name st j n)) = map bid (tbl_board st)"
    by (simp add: set_board_name_def comp_def if_distrib cong: if_cong)
  have rows: "board_collaborators (set_board_name st j n) = board_collaborators st"
    by (simp add: set_board_name_def)
  have own: "owner_not_collaborator (set_board_name st j n)"
    using assms(3) by (auto simp: owner_not_collaborator_def set_board_name_def)
  show ?thesis
    using assms(1,2) own by (simp add: ids rows collaborator_rows_of_boards_def)
qed

lemma board_inv_delete:
  assumes "distinct (map bid (tbl_board st))" "collaborator_rows_of_boards st"
    "owner_not_collaborator st"
  shows "distinct (map bid (tbl_board (delete_board_rows st j))) \<and>
         collaborator_rows_of_boards (delete_board_rows st j) \<and>
         owner_not_collaborator (delete_board_rows st j)"
  using assms
  by (auto simp: delete_board_rows_def Let_def collaborator_rows_of_boards_def
      owner_not_collaborator_def distinct_map_filter)

lemma board_inv_share:
  fixes b :: board and k :: nat
  assumes "distinct (map bid (tbl_board st))" "collaborator_rows_of_boards st"
    "owner_not_collaborator st" "get_board st i = Some b" "k \<noteq> user_id b"
  defines "st' \<equiv> st\<lparr>board_collaborators := board_collaborators st @ [(bid b, k)]\<rparr>"
  shows "distinct (map bid (tbl_board st')) \<and> collaborator_rows_of_boards st' \<and>
         owner_not_collaborator st'"
proof -
  have b: "b \<in> set (tbl_board st)"
    using assms(4) by (auto simp: get_board_def dest: find_key_eq)
  have "user_id b' \<noteq> k" if "b' \<in> set (tbl_board st)" "bid b' = bid b" for b'
    using that b assms(1,5) distinct_key_eq[of bid "tbl_board st" b' b] by auto
  then show ?thesis
    using assms(1-3) b
    by (auto simp: st'_def collaborator_rows_of_boards_def owner_not_collaborator_def)
qed

lemma step_board_inv:
  assumes "step st st'"
    and "distinct (map bid (tbl_board st)) \<and> collaborator_rows_of_boards st \<and>
         owner_not_collaborator st"
  shows "distinct (map bid (tbl_board st')) \<and> collaborator_rows_of_boards st' \<and>
         owner_not_collaborator st'"
  using assms
proof (cases rule: step.cases)
  case (step_create_board fn sess)
  then show ?thesis
    using assms(2) create_board_store[of fn st sess] board_inv_create[of st] by auto
next
  case (step_update_board i fn sess)
  then show ?thesis
    using assms(2) update_board_store[of i fn st sess] board_inv_rename[of st] by auto
next
  case (step_delete_board i sess)
  then show ?thesis
    using assms(2) delete_board_store[of i st sess] board_inv_delete[of st] by auto
next
  case (step_add_collaborator i fu sess)
  then show ?thesis
    using assms(2) add_collaborator_store[of i fu st sess] board_inv_share[of st] by auto
qed (simp_all add: boards_untouched collaborator_rows_of_boards_def owner_not_collaborator_def)

lemma reachable_board_inv:
  "reachable st \<Longrightarrow>
   distinct (map bid (tbl_board st)) \<and> collaborator_rows_of_boards st \<and>
   owner_not_collaborator st"
proof (induction rule: reachable.induct)
  case reachable_empty
  show ?case
    by (simp add: empty_db_def collaborator_rows_of_boards_def owner_not_collaborator_def)
next
  case (reachable_step st st')
  then show ?case using step_board_inv by blast
qed

text \<open>Primary keys stay unique: every reachable database satisfies \<open>primary_keys\<close>.\<close>

lemma next_id_fresh_image: "next_id (map k xs) \<notin> k ` set xs"
  using next_id_fresh[of "map k xs"] by simp

lemma map_key_upd:
  "(\<And>x. k (f x) = k x) \<Longrightarrow> map k (map (\<lambda>x. if P x then f x else x) xs) = map k xs"
  by (induction xs) auto

lemma primary_keys_writes:
  assumes "primary_keys st"
  shows "primary_keys (set_board_name st i n)"
    and "primary_keys (set_list_name st i n)"
    and "primary_keys (set_card_text st i t d)"
    and "primary_keys (set_card_place st i l p)"
    and "primary_keys (delete_board_rows st i)"
    and "primary_keys (delete_list_rows st i)"
    and "primary_keys (delete_card_row st i)"
    and "primary_keys (st\<lparr>board_collaborators := rows\<rparr>)"
    and "primary_keys (st\<lparr>tbl_users := tbl_users st @
           [\<lparr>uid = next_id (map uid (tbl_users st)), username = un, password = pw\<rparr>]\<rparr>)"
    and "primary_keys (st\<lparr>tbl_board := tbl_board st @
           [\<lparr>bid = next_id (map bid (tbl_board st)), bname = n, user_id = k\<rparr>]\<rparr>)"
    and "primary_keys (st\<lparr>tbl_list := tbl_list st @
           [\<lparr>lid = next_id (map lid (tbl_list st)), lname = n, board_id = k\<rparr>]\<rparr>)"
    and "primary_keys (st\<lparr>tbl_card := tbl_card st @
           [\<lparr>cid = next_id (map cid (tbl_card st)), title = t, description = d,
             position = p, list_id = k\<rparr>]\<rparr>)"
  using assms
  by (simp_all add: primary_keys_def set_board_name_def set_list_name_def set_card_text_def
      set_card_place_def delete_board_rows_def delete_list_rows_def delete_card_row_def Let_def
      comp_def if_distrib distinct_map_filter next_id_fresh_image cong: if_cong)

lemma handlers_primary_keys:
  assumes "primary_keys st"
  shows "primary_keys (store (register g m fu fp st sess))"
    and "primary_keys (store (create_board fn st sess))"
    and "primary_keys (store (update_board i fn st sess))"
    and "primary_keys (store (delete_board i st sess))"
    and "primary_keys (store (add_list i fn st sess))"
    and "primary_keys (store (update_list i fn st sess))"
    and "primary_keys (store (delete_list i st sess))"
    and "primary_keys (store (add_card i ft fd r st sess))"
    and "primary_keys (store (update_card i ft fd r st sess))"
    and "primary_keys (store (delete_card i r st sess))"
    and "primary_keys (store (move_card i j body st sess))"
  by (simp_all add: register_def create_board_def update_board_def delete_board_def add_list_def
      update_list_def delete_list_def add_card_def update_card_def delete_card_def move_card_def
      outcome_defs Let_def primary_keys_writes[OF assms] assms
      split: option.splits json_body.splits)

lemma step_primary_keys:
  assumes "step st st'" and "primary_keys st"
  shows "primary_keys st'"
  using assms(1)
proof (cases rule: step.cases)
  case (step_add_collaborator i fu sess)
  then show ?thesis
    using assms(2) add_collaborator_store[of i fu st sess] primary_keys_writes(8)[of st]
    by auto
qed (simp_all add: handlers_primary_keys[OF assms(2)])

lemma reachable_primary_keys: "reachable st \<Longrightarrow> primary_keys st"
proof (induction rule: reachable.induct)
  case reachable_empty
  show ?case by (simp add: empty_db_def primary_keys_def)
next
  case (reachable_step st st')
  then show ?case using step_primary_keys by blast
qed

lemma shared_board_db_eval:
  "shared_board_db =
     \<lparr>tbl_users = [\<lparr>uid = 1, username = ''alice'', password = ''h$alice-pw''\<rparr>,
                   \<lparr>uid = 2, username = ''bob'', password = ''h$bob-pw''\<rparr>],
      tbl_board = [\<lparr>bid = 1, bname = ''Sprint 1'', user_id = 1\<rparr>],
      tbl_list = [], tbl_card = [], board_collaborators = [(1, 2)]\<rparr>"
  by (simp add: shared_board_db_def after_registration_def register_def create_board_def
      add_collaborator_def reply_def empty_db_def user_by_name_def next_id_def toy_hash_def
      current_user_def get_user_def get_board_def is_collaborator_def collaborators_def
      strip_def is_space_def Let_def numeral_2_eq_2)

text \<open>
  Claim C5. In every reachable database no board has its owner among its collaborator
  rows, and every request leaves it so. \<open>add_collaborator\<close>, the only handler that adds
  a collaborator row, flashes "User is already a collaborator or owner." and writes nothing
  when the named user is the board's owner or already a collaborator.
\<close>

theorem owner_never_collaborator:
  assumes "reachable st"
  shows "owner_not_collaborator st \<and>
         (\<forall>st'. step st st' \<longrightarrow> owner_not_collaborator st') \<and>
         (current_user st sess = Some cu \<and> get_board st i = Some b \<and>
          get_user st (user_id b) = Some owner \<and> uid owner = uid cu \<and>
          user_by_name st (strip raw) = Some u \<and>
          (uid u = uid owner \<or> is_collaborator st u b) \<longrightarrow>
            add_collaborator i (Some raw) st sess =
              reply (Redirect (To_view_board i)) [Already_member] [] sess st)"
proof -
  have inv: "distinct (map bid (tbl_board st)) \<and> collaborator_rows_of_boards st \<and>
      owner_not_collaborator st"
    using assms by (rule reachable_board_inv)
  have next_inv: "owner_not_collaborator st'" if "step st st'" for st'
    using step_board_inv[OF that inv] by simp
  have noop: "add_collaborator i (Some raw) st sess =
      reply (Redirect (To_view_board i)) [Already_member] [] sess st"
    if "current_user st sess = Some cu" "get_board st i = Some b"
      "get_user st (user_id b) = Some owner" "uid owner = uid cu"
      "user_by_name st (strip raw) = Some u" "uid u = uid owner \<or> is_collaborator st u b"
    using that by (auto simp: add_collaborator_def Let_def)
  show ?thesis using inv next_inv noop by blast
qed

text \<open>
  In the reached example alice, who owns board 1, names herself (with blanks around the
  name, which \<open>strip\<close> removes): nothing is written.
\<close>

theorem owner_never_collaborator_witness:
  "reachable shared_board_db \<and>
   tbl_board shared_board_db = [\<lparr>bid = 1, bname = ''Sprint 1'', user_id = 1\<rparr>] \<and>
   board_collaborators shared_board_db = [(1, 2)] \<and>
   owner_not_collaborator shared_board_db \<and>
   owner_not_collaborator (store (add_collaborator 1 (Some '' alice '') shared_board_db (Some 1))) \<and>
   add_collaborator 1 (Some '' alice '') shared_board_db (Some 1) =
     reply (Redirect (To_view_board 1)) [Already_member] [] (Some 1) shared_board_db"
proof -
  have r: "reachable shared_board_db"
    unfolding shared_board_db_def after_registration_def
    by (intro reachable_step[OF _ step_add_collaborator] reachable_step[OF _ step_create_board]
        reachable_step[OF _ step_register] reachable_empty)
  have s: "step shared_board_db
      (store (add_collaborator 1 (Some '' alice '') shared_board_db (Some 1)))"
    by (rule step_add_collaborator)
  show ?thesis
    using r s owner_never_collaborator [OF r, of "Some 1"
        "\<lparr>uid = 1, username = ''alice'', password = ''h$alice-pw''\<rparr>" 1
        "\<lparr>bid = 1, bname = ''Sprint 1'', user_id = 1\<rparr>"
        "\<lparr>uid = 1, username = ''alice'', password = ''h$alice-pw''\<rparr>" "'' alice ''"
        "\<lparr>uid = 1, username = ''alice'', password = ''h$alice-pw''\<rparr>"]
    by (simp add: shared_board_db_eval current_user_def get_user_def get_board_def
        user_by_name_def strip_def is_space_def)
qed

end
